theory Spec2Isabelle
  imports Main
begin

section \<open>JavaScript array primitives used by the store\<close>

text \<open>
  \<^verbatim>\<open>Array.prototype.findIndex\<close>: the index of the first element satisfying the
  predicate, or \<open>-1\<close> when there is none.
\<close>

fun findIndex :: "('a \<Rightarrow> bool) \<Rightarrow> 'a list \<Rightarrow> int" where
  "findIndex p [] = - 1"
| "findIndex p (x # xs) =
     (if p x then 0
      else (let i = findIndex p xs in if i = - 1 then - 1 else i + 1))"

text \<open>
  Reading \<^verbatim>\<open>xs[i]\<close>: an index outside \<open>0 \<le> i < length\<close> (in particular \<open>-1\<close>) gives
  \<^verbatim>\<open>undefined\<close>, modelled by \<open>None\<close>. Reading or writing a property of
  \<^verbatim>\<open>undefined\<close> throws a \<^verbatim>\<open>TypeError\<close>.
\<close>

definition at :: "'a list \<Rightarrow> int \<Rightarrow> 'a option" where
  "at xs i = (if 0 \<le> i \<and> i < int (length xs) then Some (xs ! nat i) else None)"

text \<open>
  \<^verbatim>\<open>xs.splice(start, 1)\<close>: a negative start counts from the end (clamped at 0), a start
  beyond the end is clamped to the length; one element is deleted from that position when
  there is one.
\<close>

definition splice1 :: "int \<Rightarrow> 'a list \<Rightarrow> 'a list" where
  "splice1 start xs =
     (let n = int (length xs);
          s = (if start < 0 then max (n + start) 0 else min start n)
      in take (nat s) xs @ drop (nat s + 1) xs)"

text \<open>lodash \<^verbatim>\<open>flatMap\<close> and \<^verbatim>\<open>sumBy\<close>.\<close>

definition flatMap :: "'a list \<Rightarrow> ('a \<Rightarrow> 'b list) \<Rightarrow> 'b list" where
  "flatMap xs f = concat (map f xs)"

definition sumBy :: "'a list \<Rightarrow> ('a \<Rightarrow> int) \<Rightarrow> int" where
  "sumBy xs f = sum_list (map f xs)"

text \<open>Exceptions are identified by their \<^verbatim>\<open>name\<close> property, which is all the store inspects.\<close>

datatype js_error = JsError (name: string)

abbreviation TypeError :: js_error where
  "TypeError \<equiv> JsError ''TypeError''"

abbreviation CanceledError :: js_error where
  "CanceledError \<equiv> JsError ''CanceledError''"


section \<open>Data model\<close>

text \<open>
  An asset summary as the store sees it: the store reads \<^verbatim>\<open>id\<close> and writes
  \<^verbatim>\<open>isFavorite\<close>; every other property travels in the record's extension. The field
  \<^verbatim>\<open>id\<close> is written \<open>id'\<close>, since \<open>id\<close> is the identity function of HOL.
\<close>

record AssetResponseDto =
  id' :: string
  isFavorite :: bool

text \<open>
  A bucket of the grid. \<^verbatim>\<open>cancelToken\<close> is a reference to an \<^verbatim>\<open>AbortController\<close>
  object: its address, a natural number. Heights are pixel counts, modelled as integers.
\<close>

record AssetBucket =
  bucketDate :: string
  bucketHeight :: int
  assets :: "AssetResponseDto list"
  cancelToken :: nat

text \<open>
  \<^verbatim>\<open>AssetGridState\<close>. Its field \<^verbatim>\<open>assets\<close> (the flattened list) is written
  \<open>state_assets\<close>, to keep it apart from the field \<open>assets\<close> of a bucket. The type of
  the grid options is a parameter.
\<close>

record 'o AssetGridState =
  initialized :: bool
  viewportHeight :: int
  viewportWidth :: int
  timelineHeight :: int
  buckets :: "AssetBucket list"
  state_assets :: "AssetResponseDto list"
  options :: 'o

record TimeBucketResponseDto =
  timeBucket :: string
  count :: int


section \<open>The update callbacks of the store\<close>

text \<open>
  Each function below is the callback that the source passes to
  \<^verbatim>\<open>assetGridState.update\<close>, as a function of the state it receives. \<open>Inl e\<close> is
  the exception \<open>e\<close> thrown by the callback; none of the callbacks has mutated the state at
  the point where it throws.
\<close>

text \<open>\<^verbatim>\<open>_removeBucket\<close> (an Isabelle name cannot start with an underscore).\<close>

definition removeBucket :: "string \<Rightarrow> 'o AssetGridState \<Rightarrow> 'o AssetGridState" where
  "removeBucket bucketDate' state =
     (let bucketIndex = findIndex (\<lambda>b. bucketDate b = bucketDate') (buckets state);
          bs = splice1 bucketIndex (buckets state)
      in state\<lparr>buckets := bs, state_assets := flatMap bs assets\<rparr>)"

definition removeAsset :: "string \<Rightarrow> 'o AssetGridState \<Rightarrow> js_error + 'o AssetGridState" where
  "removeAsset assetId state =
     (let bucketIndex =
            findIndex (\<lambda>b. list_ex (\<lambda>a. id' a = assetId) (assets b)) (buckets state)
      in case at (buckets state) bucketIndex of
           None \<Rightarrow> Inl TypeError
         | Some b \<Rightarrow>
             (let assetIndex = findIndex (\<lambda>a. id' a = assetId) (assets b);
                  b' = b\<lparr>assets := splice1 assetIndex (assets b)\<rparr>;
                  state1 = state\<lparr>buckets := (buckets state)[nat bucketIndex := b']\<rparr>;
                  state2 = (if length (assets b') = 0
                            then removeBucket (bucketDate b') state1 else state1)
              in Inr (state2\<lparr>state_assets := flatMap (buckets state2) assets\<rparr>)))"

definition updateAsset ::
  "string \<Rightarrow> bool \<Rightarrow> 'o AssetGridState \<Rightarrow> js_error + 'o AssetGridState" where
  "updateAsset assetId isFavorite' state =
     (let bucketIndex =
            findIndex (\<lambda>b. list_ex (\<lambda>a. id' a = assetId) (assets b)) (buckets state)
      in case at (buckets state) bucketIndex of
           None \<Rightarrow> Inl TypeError
         | Some b \<Rightarrow>
             (let assetIndex = findIndex (\<lambda>a. id' a = assetId) (assets b)
              in case at (assets b) assetIndex of
                   None \<Rightarrow> Inl TypeError
                 | Some a \<Rightarrow>
                     (let b' = b\<lparr>assets := (assets b)[nat assetIndex := a\<lparr>isFavorite := isFavorite'\<rparr>]\<rparr>;
                          bs = (buckets state)[nat bucketIndex := b']
                      in Inr (state\<lparr>buckets := bs, state_assets := flatMap bs assets\<rparr>))))"

definition updateBucketHeight ::
  "string \<Rightarrow> int \<Rightarrow> 'o AssetGridState \<Rightarrow> js_error + 'o AssetGridState" where
  "updateBucketHeight bucket actualBucketHeight state =
     (let bucketIndex = findIndex (\<lambda>b. bucketDate b = bucket) (buckets state)
      in case at (buckets state) bucketIndex of
           None \<Rightarrow> Inl TypeError
         | Some b \<Rightarrow>
             (let estimateBucketHeight = bucketHeight b;
                  t = (if actualBucketHeight \<ge> estimateBucketHeight
                       then timelineHeight state + (actualBucketHeight - estimateBucketHeight)
                       else timelineHeight state - (estimateBucketHeight - actualBucketHeight))
              in Inr (state\<lparr>timelineHeight := t,
                             buckets := (buckets state)[nat bucketIndex :=
                                          b\<lparr>bucketHeight := actualBucketHeight\<rparr>]\<rparr>)))"


section \<open>The store, the heap of abort controllers and the fetch client\<close>

text \<open>
  One call of \<^verbatim>\<open>api.timeBucketApi.getByTimeBucket\<close>: the options of the grid state at
  the time of the call, the bucket asked for, and the signal passed, the address of the
  bucket's \<^verbatim>\<open>AbortController\<close> (\<open>None\<close> for \<^verbatim>\<open>undefined\<close>, when no bucket has the key).
\<close>

record 'o ApiCall =
  call_options :: 'o
  call_bucket :: string
  call_signal :: "nat option"

text \<open>
  How the promise returned by the fetch client settles is decided outside the store: it
  is fulfilled with the assets of the response, or rejected with an exception.
\<close>

datatype fetch_result = Fulfilled "AssetResponseDto list" | Rejected js_error

text \<open>
  Everything the closure \<^verbatim>\<open>createAssetStore\<close> can read or change: the value of the
  writable \<^verbatim>\<open>assetGridState\<close> (the variable \<^verbatim>\<open>_assetGridState\<close> mirrors it at every
  moment), the addresses of the abort controllers whose \<^verbatim>\<open>abort()\<close> has been called, the
  next free address, the calls made to the fetch client, the calls of
  \<^verbatim>\<open>getAssetsByBucket\<close> suspended at their \<^verbatim>\<open>await\<close>, and the lines written with
  \<^verbatim>\<open>console.error\<close>.
\<close>

record 'o store =
  assetGridState :: "'o AssetGridState"
  aborted :: "nat set"
  nextToken :: nat
  calls :: "'o ApiCall list"
  awaiting :: "'o ApiCall list"
  console :: "string list"

text \<open>
  The result of a store operation: the exception it throws to its caller (for an async
  function, the rejection of its promise), if any, and the store it leaves behind.
\<close>

type_synonym 'o outcome = "js_error option \<times> 'o store"

text \<open>
  Modelled from the spec: the class \<^verbatim>\<open>AssetGridState\<close> of
  \<^verbatim>\<open>$lib/models/asset-grid-state\<close> is missing from the sources; a new instance is
  uninitialized, with no buckets and no items (spec, 4.5), and zero metrics. Its default
  options are a parameter.
\<close>

definition new_AssetGridState :: "'o \<Rightarrow> 'o AssetGridState" where
  "new_AssetGridState defaultOptions =
     \<lparr>initialized = False, viewportHeight = 0, viewportWidth = 0, timelineHeight = 0,
      buckets = [], state_assets = [], options = defaultOptions\<rparr>"

definition initial_store :: "'o \<Rightarrow> 'o store" where
  "initial_store defaultOptions =
     \<lparr>assetGridState = new_AssetGridState defaultOptions, aborted = {}, nextToken = 0,
      calls = [], awaiting = [], console = []\<rparr>"

text \<open>
  \<^verbatim>\<open>assetGridState.update(fn)\<close> of a svelte writable: the callback runs on the current
  value and its result is stored; an exception of the callback leaves the value as it was
  and reaches the caller.
\<close>

definition update ::
  "('o AssetGridState \<Rightarrow> js_error + 'o AssetGridState) \<Rightarrow> 'o store \<Rightarrow> 'o outcome" where
  "update fn w =
     (case fn (assetGridState w) of
        Inl e \<Rightarrow> (Some e, w)
      | Inr state \<Rightarrow> (None, w\<lparr>assetGridState := state\<rparr>))"

definition reset :: "'o \<Rightarrow> 'o store \<Rightarrow> 'o store" where
  "reset defaultOptions w =
     (let ab = fold (\<lambda>bucket ab. insert (cancelToken bucket) ab)
                 (buckets (assetGridState w)) (aborted w)
      in w\<lparr>aborted := ab, assetGridState := new_AssetGridState defaultOptions\<rparr>)"

text \<open>
  \<^verbatim>\<open>setInitialState\<close>. The function \<^verbatim>\<open>calculateViewportHeightByNumberOfAsset\<close> of
  \<^verbatim>\<open>$lib/utils/viewport-utils\<close> is missing from the sources and is the first parameter.
  Every bucket receives a new abort controller.
\<close>

definition setInitialState ::
  "(int \<Rightarrow> int \<Rightarrow> int) \<Rightarrow> int \<Rightarrow> int \<Rightarrow> TimeBucketResponseDto list \<Rightarrow> 'o \<Rightarrow> 'o store \<Rightarrow> 'o store"
  where
  "setInitialState calculateViewportHeightByNumberOfAsset viewportHeight' viewportWidth'
       timeBuckets options' w =
     (let state =
            \<lparr>initialized = True,
             viewportHeight = viewportHeight',
             viewportWidth = viewportWidth',
             timelineHeight = 0,
             buckets =
               map (\<lambda>(tb, token).
                      \<lparr>bucketDate = timeBucket tb,
                       bucketHeight = calculateViewportHeightByNumberOfAsset (count tb) viewportWidth',
                       assets = [],
                       cancelToken = token\<rparr>)
                   (zip timeBuckets [nextToken w ..< nextToken w + length timeBuckets]),
             state_assets = [],
             options = options'\<rparr>;
          state' = state\<lparr>timelineHeight := sumBy (buckets state) bucketHeight\<rparr>
      in w\<lparr>assetGridState := state', nextToken := nextToken w + length timeBuckets\<rparr>)"

text \<open>
  \<^verbatim>\<open>getAssetsByBucket\<close> is an async function with one suspension point, the
  \<^verbatim>\<open>await\<close> of the fetch. \<open>getAssetsByBucket_call\<close> is the part that runs when the
  function is called: it returns at once when the first bucket with the key has assets,
  and otherwise calls the fetch client and suspends.
\<close>

definition getAssetsByBucket_call :: "string \<Rightarrow> 'o store \<Rightarrow> 'o store" where
  "getAssetsByBucket_call bucket w =
     (let currentBucketData = find (\<lambda>b. bucketDate b = bucket) (buckets (assetGridState w))
      in if (case currentBucketData of None \<Rightarrow> False | Some b \<Rightarrow> length (assets b) > 0)
         then w
         else (let c = \<lparr>call_options = options (assetGridState w),
                         call_bucket = bucket,
                         call_signal = map_option cancelToken currentBucketData\<rparr>
               in w\<lparr>calls := calls w @ [c], awaiting := awaiting w @ [c]\<rparr>))"

text \<open>The callback of \<^verbatim>\<open>getAssetsByBucket\<close> that stores the assets of the response.\<close>

definition getAssetsByBucket_update ::
  "string \<Rightarrow> AssetResponseDto list \<Rightarrow> 'o AssetGridState \<Rightarrow> js_error + 'o AssetGridState" where
  "getAssetsByBucket_update bucket assets' state =
     (let bucketIndex = findIndex (\<lambda>b. bucketDate b = bucket) (buckets state)
      in case at (buckets state) bucketIndex of
           None \<Rightarrow> Inl TypeError
         | Some b \<Rightarrow>
             (let bs = (buckets state)[nat bucketIndex := b\<lparr>assets := assets'\<rparr>]
              in Inr (state\<lparr>buckets := bs, state_assets := flatMap bs assets\<rparr>)))"

text \<open>
  \<open>getAssetsByBucket_resume\<close> is the part that runs when the promise of the fetch has
  settled, on the store as it is at that moment: the rest of the \<^verbatim>\<open>try\<close> block and the
  \<^verbatim>\<open>catch\<close> clause, which swallows every exception and writes two lines to the console
  unless the exception is named \<^verbatim>\<open>CanceledError\<close>.
\<close>

definition getAssetsByBucket_resume :: "string \<Rightarrow> fetch_result \<Rightarrow> 'o store \<Rightarrow> 'o outcome" where
  "getAssetsByBucket_resume bucket r w =
     (case (case r of
              Rejected e \<Rightarrow> (Some e, w)
            | Fulfilled assets' \<Rightarrow> update (getAssetsByBucket_update bucket assets') w) of
        (None, w') \<Rightarrow> (None, w')
      | (Some e, w') \<Rightarrow>
          if name e = ''CanceledError'' then (None, w')
          else (None, w'\<lparr>console := console w' @
                            [''Failed to get asset for bucket '' @ bucket, name e]\<rparr>))"

text \<open>
  \<^verbatim>\<open>cancelBucketRequest\<close>: the token passed is aborted first; the callback then installs
  a new abort controller in the first bucket with the key.
\<close>

definition cancelBucketRequest_update ::
  "nat \<Rightarrow> string \<Rightarrow> 'o AssetGridState \<Rightarrow> js_error + 'o AssetGridState" where
  "cancelBucketRequest_update newToken bucketDate' state =
     (let bucketIndex = findIndex (\<lambda>b. bucketDate b = bucketDate') (buckets state)
      in case at (buckets state) bucketIndex of
           None \<Rightarrow> Inl TypeError
         | Some b \<Rightarrow>
             Inr (state\<lparr>buckets := (buckets state)[nat bucketIndex := b\<lparr>cancelToken := newToken\<rparr>]\<rparr>))"

definition cancelBucketRequest :: "nat \<Rightarrow> string \<Rightarrow> 'o store \<Rightarrow> 'o outcome" where
  "cancelBucketRequest token bucketDate' w =
     (let w1 = w\<lparr>aborted := insert token (aborted w)\<rparr>
      in case update (cancelBucketRequest_update (nextToken w1) bucketDate') w1 of
           (None, w2) \<Rightarrow> (None, w2\<lparr>nextToken := nextToken w2 + 1\<rparr>)
         | (Some e, w2) \<Rightarrow> (Some e, w2))"


section \<open>Executions of the store\<close>

text \<open>
  The events of an execution: the calls of the seven functions the store exports, and the
  settling of a suspended fetch, which resumes the call of \<^verbatim>\<open>getAssetsByBucket\<close> that
  awaits it. Mutations run to completion, one after the other; an exception thrown to the
  caller leaves the store as the operation left it.
\<close>

datatype 'o action =
    Reset
  | SetInitialState int int "TimeBucketResponseDto list" 'o
  | GetAssetsByBucket string
  | Settle nat fetch_result
  | RemoveAsset string
  | UpdateBucketHeight string int
  | CancelBucketRequest nat string
  | UpdateAsset string bool

fun step :: "(int \<Rightarrow> int \<Rightarrow> int) \<Rightarrow> 'o \<Rightarrow> 'o action \<Rightarrow> 'o store \<Rightarrow> 'o store" where
  "step calc d Reset w = reset d w"
| "step calc d (SetInitialState vh vw timeBuckets opts) w =
     setInitialState calc vh vw timeBuckets opts w"
| "step calc d (GetAssetsByBucket bucket) w = getAssetsByBucket_call bucket w"
| "step calc d (Settle n r) w =
     (if n < length (awaiting w)
      then snd (getAssetsByBucket_resume (call_bucket (awaiting w ! n)) r
                  (w\<lparr>awaiting := take n (awaiting w) @ drop (Suc n) (awaiting w)\<rparr>))
      else w)"
| "step calc d (RemoveAsset assetId) w = snd (update (removeAsset assetId) w)"
| "step calc d (UpdateBucketHeight bucket h) w = snd (update (updateBucketHeight bucket h) w)"
| "step calc d (CancelBucketRequest token bucket) w = snd (cancelBucketRequest token bucket w)"
| "step calc d (UpdateAsset assetId fav) w = snd (update (updateAsset assetId fav) w)"

definition run :: "(int \<Rightarrow> int \<Rightarrow> int) \<Rightarrow> 'o \<Rightarrow> 'o action list \<Rightarrow> 'o store \<Rightarrow> 'o store" where
  "run calc d actions w = fold (step calc d) actions w"

text \<open>
  Invariant I3 of the grid state: the flattened list is the concatenation of the buckets'
  asset lists, in bucket order. It is stated with the list functions of HOL, not with the
  helper \<open>flatMap\<close> that the operations compute the list with.
\<close>

definition I3 :: "'o AssetGridState \<Rightarrow> bool" where
  "I3 state \<longleftrightarrow> state_assets state = concat (map assets (buckets state))"


section \<open>The upload pipeline\<close>

text \<open>
  The asset service of the server is known to the sources only through its test,
  \<^verbatim>\<open>asset.service.spec.ts\<close>: the entities, the job names and the payloads below are
  those the test uses. A job is queued with \<^verbatim>\<open>jobRepository.queue\<close>; the repository is
  the list of the jobs queued so far, oldest first (the \<^verbatim>\<open>mock.calls\<close> of the test).
\<close>

datatype AssetType = IMAGE | VIDEO

record AssetEntity =
  asset_id :: string
  asset_type :: AssetType

datatype JobName =
    GENERATE_JPEG_THUMBNAIL
  | VIDEO_CONVERSION
  | EXTRACT_VIDEO_METADATA
  | EXIF_EXTRACTION
  | SEARCH_INDEX_ASSET

datatype JobData = Asset AssetEntity | Ids "string list"

record JobItem =
  job_name :: JobName
  job_data :: JobData

definition queue :: "JobItem \<Rightarrow> JobItem list \<Rightarrow> JobItem list" where
  "queue item jobs = jobs @ [item]"

text \<open>
  Modelled from the spec: \<^verbatim>\<open>AssetService.handleAssetUpload\<close> is missing from the
  sources. Spec, section 6: on new item ingestion, always enqueue a thumbnail-generation
  job; if the item is a video, additionally enqueue a transcode job and a
  metadata-extraction job, in that order; if the item is an image, additionally enqueue a
  metadata (EXIF) extraction job.
\<close>

definition handleAssetUpload :: "AssetEntity \<Rightarrow> JobItem list \<Rightarrow> JobItem list" where
  "handleAssetUpload asset jobs =
     (let data = Asset asset;
          jobs1 = queue \<lparr>job_name = GENERATE_JPEG_THUMBNAIL, job_data = data\<rparr> jobs;
          jobs2 = (if asset_type asset = VIDEO
                   then queue \<lparr>job_name = EXTRACT_VIDEO_METADATA, job_data = data\<rparr>
                          (queue \<lparr>job_name = VIDEO_CONVERSION, job_data = data\<rparr> jobs1)
                   else jobs1)
      in if asset_type asset = IMAGE
         then queue \<lparr>job_name = EXIF_EXTRACTION, job_data = data\<rparr> jobs2
         else jobs2)"

text \<open>
  Modelled from the spec: \<^verbatim>\<open>AssetService.save\<close> is missing from the sources. Spec,
  section 6: on explicit save of an item, enqueue a search-index-update job keyed by the
  item's identifier.
\<close>

definition save :: "AssetEntity \<Rightarrow> JobItem list \<Rightarrow> JobItem list" where
  "save asset jobs = queue \<lparr>job_name = SEARCH_INDEX_ASSET, job_data = Ids [asset_id asset]\<rparr> jobs"


section \<open>Example states\<close>

text \<open>
  A height estimator and the states of the scenarios of the specification: scenario A is
  the store after \<^verbatim>\<open>setInitialState(800, 400, [("2024-01", 10), ("2024-02", 5)], {})\<close>,
  scenario B the store after the first bucket has been requested and its fetch fulfilled
  with one asset.
\<close>

definition example_height :: "int \<Rightarrow> int \<Rightarrow> int" where
  "example_height count' width = 18 * count'"

definition asset_a1 :: AssetResponseDto where
  "asset_a1 = \<lparr>id' = ''a1'', isFavorite = False\<rparr>"

definition scenario_A :: "unit store" where
  "scenario_A =
     setInitialState example_height 800 400
       [\<lparr>timeBucket = ''2024-01'', count = 10\<rparr>, \<lparr>timeBucket = ''2024-02'', count = 5\<rparr>] ()
       (initial_store ())"

definition scenario_B :: "unit store" where
  "scenario_B =
     run example_height ()
       [GetAssetsByBucket ''2024-01'', Settle 0 (Fulfilled [asset_a1])] scenario_A"


text \<open>
  Scenario E: after scenario A the first bucket is requested, and the request is cancelled
  with the bucket's token before the fetch settles.
\<close>

definition scenario_E :: "unit store" where
  "scenario_E =
     run example_height ()
       [GetAssetsByBucket ''2024-01'', CancelBucketRequest 0 ''2024-01''] scenario_A"


text \<open>
  Scenario R: after scenario A the first bucket is requested; before the fetch settles the
  store is reset and initialized again with the same layout.
\<close>

definition scenario_R :: "unit store" where
  "scenario_R =
     run example_height ()
       [GetAssetsByBucket ''2024-01'', Reset,
        SetInitialState 800 400
          [\<lparr>timeBucket = ''2024-01'', count = 10\<rparr>, \<lparr>timeBucket = ''2024-02'', count = 5\<rparr>] ()]
       scenario_A"






section \<open>Facts about the array primitives\<close>

lemma findIndex_range: "findIndex p xs = - 1 \<or> (0 \<le> findIndex p xs \<and> findIndex p xs < int (length xs))"
  by (induction xs) (auto simp: Let_def)

lemma findIndex_none: "findIndex p xs = - 1 \<longleftrightarrow> \<not> list_ex p xs"
proof (induction xs)
  case Nil
  show ?case by simp
next
  case (Cons x xs)
  from findIndex_range [of p xs] Cons show ?case
    by (auto simp: Let_def)
qed

lemma findIndex_holds:
  "findIndex p xs \<noteq> - 1 \<Longrightarrow> p (xs ! nat (findIndex p xs))"
proof (induction xs)
  case Nil
  then show ?case by simp
next
  case (Cons x xs)
  from findIndex_range [of p xs] Cons show ?case
    by (auto simp: Let_def nat_add_distrib split: if_splits)
qed

lemma at_findIndex_None: "at xs (findIndex p xs) = None \<longleftrightarrow> \<not> list_ex p xs"
  using findIndex_range [of p xs] by (auto simp: at_def findIndex_none [symmetric])

lemma at_findIndex_Some:
  "at xs (findIndex p xs) = Some x \<Longrightarrow> p x"
  using findIndex_holds [of p xs] by (auto simp: at_def split: if_splits)

lemma at_Some: "at xs i = Some x \<longleftrightarrow> 0 \<le> i \<and> i < int (length xs) \<and> x = xs ! nat i"
  by (auto simp: at_def)

lemma findIndex_first: "int j < findIndex p xs \<Longrightarrow> \<not> p (xs ! j)"
proof (induction xs arbitrary: j)
  case Nil
  then show ?case by simp
next
  case (Cons x xs)
  show ?case
  proof (cases j)
    case 0
    with Cons.prems show ?thesis by (auto split: if_splits)
  next
    case (Suc k)
    with Cons.prems have "int k < findIndex p xs"
      by (auto simp: Let_def split: if_splits)
    with Cons.IH Suc show ?thesis by simp
  qed
qed

lemma findIndex_eqI:
  "i < length xs \<Longrightarrow> p (xs ! i) \<Longrightarrow> (\<And>j. j < i \<Longrightarrow> \<not> p (xs ! j)) \<Longrightarrow> findIndex p xs = int i"
proof (induction xs arbitrary: i)
  case Nil
  then show ?case by simp
next
  case (Cons x xs)
  show ?case
  proof (cases i)
    case 0
    with Cons.prems show ?thesis by simp
  next
    case (Suc k)
    from Cons.prems(3) [of 0] Suc have nx: "\<not> p x" by simp
    have "findIndex p xs = int k"
    proof (rule Cons.IH)
      show "k < length xs" using Cons.prems(1) Suc by simp
      show "p (xs ! k)" using Cons.prems(2) Suc by simp
      show "\<not> p (xs ! j)" if "j < k" for j
        using Cons.prems(3) [of "Suc j"] that Suc by simp
    qed
    with nx Suc show ?thesis by (simp add: Let_def)
  qed
qed

lemma findIndex_eq_int:
  "findIndex p xs = int i \<Longrightarrow> i < length xs \<and> p (xs ! i) \<and> at xs (int i) = Some (xs ! i)"
  using findIndex_range [of p xs] findIndex_holds [of p xs] by (auto simp: at_def)

lemma map_update_same:
  "at xs i = Some b \<Longrightarrow> f b' = f b \<Longrightarrow> map f (xs[nat i := b']) = map f xs"
proof -
  assume a: "at xs i = Some b" and f: "f b' = f b"
  from a have k: "nat i < length xs" and b: "b = xs ! nat i"
    by (auto simp: at_Some)
  have "map f (xs[nat i := b']) = (map f xs)[nat i := f b']"
    by (rule map_update)
  also have "\<dots> = map f xs"
    using k b f by (simp add: list_update_same_conv)
  finally show ?thesis .
qed


lemma findIndex_found:
  assumes "b \<in> set xs" and "p b"
  obtains i where "findIndex p xs = int i" and "i < length xs" and "p (xs ! i)"
    and "at xs (findIndex p xs) = Some (xs ! i)"
proof -
  from assms have "list_ex p xs" by (auto simp: list_ex_iff)
  then have ne: "findIndex p xs \<noteq> - 1" by (simp add: findIndex_none)
  with findIndex_range [of p xs] have r: "0 \<le> findIndex p xs" "findIndex p xs < int (length xs)"
    by auto
  define i where "i = nat (findIndex p xs)"
  with r have eq: "findIndex p xs = int i" by simp
  with findIndex_eq_int [of p xs i] that show thesis by simp
qed




lemma find_findIndex:
  assumes "find p xs = Some b"
  obtains i where "findIndex p xs = int i" and "i < length xs" and "xs ! i = b" and "p b"
proof -
  from assms obtain i where i: "i < length xs" "p (xs ! i)" "b = xs ! i" "\<forall>j<i. \<not> p (xs ! j)"
    by (auto simp: find_Some_iff)
  then have "findIndex p xs = int i"
    by (intro findIndex_eqI) auto
  with i that show thesis by simp
qed

lemma find_update_first:
  assumes "findIndex p xs = int i" and "p y"
  shows "find p (xs[i := y]) = Some y"
proof -
  from findIndex_eq_int [OF assms(1)] have i: "i < length xs" by simp
  have "\<not> p (xs ! j)" if "j < i" for j
    using findIndex_first [of j p xs] assms(1) that by simp
  with i assms(2) show ?thesis
    by (auto simp: find_Some_iff intro!: exI [of _ i])
qed


section \<open>The flattened list is an invariant\<close>

lemma I3_removeAsset: "removeAsset assetId state = Inr state' \<Longrightarrow> I3 state'"
  by (auto simp: removeAsset_def I3_def Let_def removeBucket_def flatMap_def
      split: option.splits if_splits)

lemma I3_updateAsset: "updateAsset assetId fav state = Inr state' \<Longrightarrow> I3 state'"
  by (auto simp: updateAsset_def I3_def Let_def flatMap_def split: option.splits)

lemma I3_getAssetsByBucket_update:
  "getAssetsByBucket_update bucket data state = Inr state' \<Longrightarrow> I3 state'"
  by (auto simp: getAssetsByBucket_update_def I3_def Let_def flatMap_def split: option.splits)

lemma I3_updateBucketHeight:
  "I3 state \<Longrightarrow> updateBucketHeight bucket h state = Inr state' \<Longrightarrow> I3 state'"
  by (auto simp: updateBucketHeight_def I3_def Let_def map_update_same split: option.splits)

lemma I3_cancelBucketRequest_update:
  "I3 state \<Longrightarrow> cancelBucketRequest_update t bucket state = Inr state' \<Longrightarrow> I3 state'"
  by (auto simp: cancelBucketRequest_update_def I3_def Let_def map_update_same
      split: option.splits)

lemma I3_new: "I3 (new_AssetGridState d)"
  by (simp add: I3_def new_AssetGridState_def)

lemma I3_update:
  assumes "I3 (assetGridState w)" and "\<And>s'. fn (assetGridState w) = Inr s' \<Longrightarrow> I3 s'"
  shows "I3 (assetGridState (snd (update fn w)))"
  using assms by (auto simp: update_def split: sum.splits)

lemma map_zip_left:
  "length xs = length ys \<Longrightarrow> (\<And>x y. g (mk x y) = h x) \<Longrightarrow>
     map (g \<circ> (\<lambda>(x, y). mk x y)) (zip xs ys) = map h xs"
  by (induction xs ys rule: list_induct2) auto

lemma setInitialState_buckets:
  "(\<And>tb token. g \<lparr>bucketDate = timeBucket tb, bucketHeight = calc (count tb) vw,
        assets = [], cancelToken = token\<rparr> = h tb) \<Longrightarrow>
   map g (buckets (assetGridState (setInitialState calc vh vw tbs opts w))) = map h tbs"
  by (simp add: setInitialState_def Let_def map_zip_left)

lemma I3_setInitialState: "I3 (assetGridState (setInitialState calc vh vw tbs opts w))"
proof -
  have "map assets (buckets (assetGridState (setInitialState calc vh vw tbs opts w)))
          = map (\<lambda>tb. []) tbs"
    by (rule setInitialState_buckets) simp
  moreover have "state_assets (assetGridState (setInitialState calc vh vw tbs opts w)) = []"
    by (simp add: setInitialState_def Let_def)
  ultimately show ?thesis by (simp add: I3_def)
qed

lemma I3_resume:
  "I3 (assetGridState w) \<Longrightarrow> I3 (assetGridState (snd (getAssetsByBucket_resume bucket r w)))"
  by (auto simp: getAssetsByBucket_resume_def update_def I3_getAssetsByBucket_update
      split: fetch_result.splits sum.splits)

lemma I3_cancelBucketRequest:
  "I3 (assetGridState w) \<Longrightarrow> I3 (assetGridState (snd (cancelBucketRequest t bucket w)))"
  by (auto simp: cancelBucketRequest_def update_def Let_def
      dest: I3_cancelBucketRequest_update split: sum.splits)

lemma I3_step: "I3 (assetGridState w) \<Longrightarrow> I3 (assetGridState (step calc d a w))"
proof (cases a)
  case Reset
  then show ?thesis by (simp add: reset_def Let_def I3_new)
next
  case (SetInitialState vh vw tbs opts)
  then show ?thesis by (simp add: I3_setInitialState)
next
  case (GetAssetsByBucket k)
  assume "I3 (assetGridState w)"
  with GetAssetsByBucket show ?thesis by (simp add: getAssetsByBucket_call_def Let_def)
next
  case (Settle n r)
  assume "I3 (assetGridState w)"
  with Settle I3_resume [of "w\<lparr>awaiting := take n (awaiting w) @ drop (Suc n) (awaiting w)\<rparr>"]
  show ?thesis by simp
next
  case (RemoveAsset x)
  assume "I3 (assetGridState w)"
  with RemoveAsset show ?thesis by (simp add: I3_update I3_removeAsset)
next
  case (UpdateBucketHeight k h)
  assume "I3 (assetGridState w)"
  with UpdateBucketHeight show ?thesis by (simp add: I3_update I3_updateBucketHeight)
next
  case (CancelBucketRequest t k)
  assume "I3 (assetGridState w)"
  with CancelBucketRequest show ?thesis by (simp add: I3_cancelBucketRequest)
next
  case (UpdateAsset x f)
  assume "I3 (assetGridState w)"
  with UpdateAsset show ?thesis by (simp add: I3_update I3_updateAsset)
qed

text \<open>
  Claim C1. Invariant I3: the flattened list of the grid state is the concatenation of the
  buckets' asset lists, in bucket order (\<open>concat (map assets (buckets state))\<close>). It
  holds in the store as created, and every
  operation of the store (reset, setInitialState, getAssetsByBucket at its call and when
  its fetch settles, removeAsset, updateBucketHeight, cancelBucketRequest, updateAsset)
  leaves a state in which it holds when it is run on a state in which it holds, whether
  the operation returns or throws.
\<close>

theorem flattened_items_invariant:
  "I3 (assetGridState (initial_store d)) \<and>
   (I3 (assetGridState w) \<longrightarrow> I3 (assetGridState (step calc d a w)))"
  by (simp add: I3_step initial_store_def I3_new)

theorem flattened_items_invariant_witness:
  "map assets (buckets (assetGridState scenario_B)) = [[asset_a1], []] \<and>
   state_assets (assetGridState scenario_B) = [asset_a1] \<and>
   I3 (assetGridState scenario_B) \<and>
   I3 (assetGridState (step example_height () (RemoveAsset ''a1'') scenario_B))"
proof -
  have b: "map assets (buckets (assetGridState scenario_B)) = [[asset_a1], []]"
    by code_simp
  have f: "state_assets (assetGridState scenario_B) = [asset_a1]"
    by code_simp
  from b f have h: "I3 (assetGridState scenario_B)"
    by (simp add: I3_def)
  with flattened_items_invariant [of "()" scenario_B example_height "RemoveAsset ''a1''"]
  have "I3 (assetGridState (step example_height () (RemoveAsset ''a1'') scenario_B))"
    by blast
  with b f h show ?thesis by (intro conjI)
qed


section \<open>Item mutations and the missing item\<close>

text \<open>
  Claim C10. removeAsset and updateAsset need the item to be in some bucket: when no bucket
  holds an asset with the identifier, \<^verbatim>\<open>findIndex\<close> gives \<open>-1\<close>, the bucket read is
  \<^verbatim>\<open>undefined\<close> and both callbacks throw a TypeError instead of returning a state;
  when some bucket holds such an asset, both return a state.
\<close>

theorem item_mutations_need_the_item:
  "(\<not> (\<exists>b\<in>set (buckets state). \<exists>a\<in>set (assets b). id' a = assetId) \<longrightarrow>
      removeAsset assetId state = Inl TypeError \<and>
      updateAsset assetId fav state = Inl TypeError) \<and>
   ((\<exists>b\<in>set (buckets state). \<exists>a\<in>set (assets b). id' a = assetId) \<longrightarrow>
      (\<exists>s'. removeAsset assetId state = Inr s') \<and>
      (\<exists>s'. updateAsset assetId fav state = Inr s'))"
proof -
  let ?owns = "\<lambda>b. list_ex (\<lambda>a. id' a = assetId) (assets b)"
  let ?i = "findIndex ?owns (buckets state)"
  have ex: "(\<exists>b\<in>set (buckets state). \<exists>a\<in>set (assets b). id' a = assetId)
      \<longleftrightarrow> list_ex ?owns (buckets state)"
    by (simp add: list_ex_iff)
  show ?thesis
  proof (cases "list_ex ?owns (buckets state)")
    case False
    then have "at (buckets state) ?i = None"
      by (simp add: at_findIndex_None)
    then show ?thesis using False ex
      by (simp add: removeAsset_def updateAsset_def)
  next
    case True
    then obtain b where b: "at (buckets state) ?i = Some b"
      using at_findIndex_None [of "buckets state" ?owns] by auto
    then have "?owns b" by (rule at_findIndex_Some)
    then obtain a where "at (assets b) (findIndex (\<lambda>a. id' a = assetId) (assets b)) = Some a"
      using at_findIndex_None [of "assets b" "\<lambda>a. id' a = assetId"] by auto
    with b True ex show ?thesis
      by (simp add: removeAsset_def updateAsset_def Let_def)
  qed
qed

theorem item_mutations_need_the_item_witness:
  "\<not> (\<exists>b\<in>set (buckets (assetGridState scenario_B)). \<exists>a\<in>set (assets b). id' a = ''zz'') \<and>
   removeAsset ''zz'' (assetGridState scenario_B) = Inl TypeError \<and>
   updateAsset ''zz'' True (assetGridState scenario_B) = Inl TypeError \<and>
   (\<exists>b\<in>set (buckets (assetGridState scenario_B)). \<exists>a\<in>set (assets b). id' a = ''a1'') \<and>
   (\<exists>s'. removeAsset ''a1'' (assetGridState scenario_B) = Inr s') \<and>
   (\<exists>s'. updateAsset ''a1'' True (assetGridState scenario_B) = Inr s')"
proof -
  have absent: "\<not> (\<exists>b\<in>set (buckets (assetGridState scenario_B)). \<exists>a\<in>set (assets b). id' a = ''zz'')"
    by code_simp
  have present: "\<exists>b\<in>set (buckets (assetGridState scenario_B)). \<exists>a\<in>set (assets b). id' a = ''a1''"
    by code_simp
  from absent present
    item_mutations_need_the_item [of "assetGridState scenario_B" "''zz''" True]
    item_mutations_need_the_item [of "assetGridState scenario_B" "''a1''" True]
  show ?thesis by blast
qed


section \<open>Initialization\<close>

text \<open>
  Claim C5. setInitialState builds one bucket per entry of the layout, in order, with the
  entry's key, the height that the estimator gives for the entry's count and the viewport
  width, no assets and a token of its own; the timeline height is the sum of these heights,
  the flattened list is empty, the state is initialized and carries the metrics and options
  given; the fetch client is not called.
\<close>

theorem setInitialState_builds_skeleton:
  "map bucketDate (buckets (assetGridState (setInitialState calc vh vw tbs opts w)))
     = map timeBucket tbs \<and>
   map bucketHeight (buckets (assetGridState (setInitialState calc vh vw tbs opts w)))
     = map (\<lambda>tb. calc (count tb) vw) tbs \<and>
   map assets (buckets (assetGridState (setInitialState calc vh vw tbs opts w)))
     = replicate (length tbs) [] \<and>
   timelineHeight (assetGridState (setInitialState calc vh vw tbs opts w))
     = sum_list (map (\<lambda>tb. calc (count tb) vw) tbs) \<and>
   state_assets (assetGridState (setInitialState calc vh vw tbs opts w)) = [] \<and>
   initialized (assetGridState (setInitialState calc vh vw tbs opts w)) \<and>
   viewportHeight (assetGridState (setInitialState calc vh vw tbs opts w)) = vh \<and>
   viewportWidth (assetGridState (setInitialState calc vh vw tbs opts w)) = vw \<and>
   options (assetGridState (setInitialState calc vh vw tbs opts w)) = opts \<and>
   calls (setInitialState calc vh vw tbs opts w) = calls w \<and>
   awaiting (setInitialState calc vh vw tbs opts w) = awaiting w"
proof -
  let ?s = "assetGridState (setInitialState calc vh vw tbs opts w)"
  have d: "map bucketDate (buckets ?s) = map timeBucket tbs"
    by (rule setInitialState_buckets) simp
  have h: "map bucketHeight (buckets ?s) = map (\<lambda>tb. calc (count tb) vw) tbs"
    by (rule setInitialState_buckets) simp
  have "map assets (buckets ?s) = map (\<lambda>tb. []) tbs"
    by (rule setInitialState_buckets) simp
  then have a: "map assets (buckets ?s) = replicate (length tbs) []"
    by (simp add: map_replicate_const)
  have "timelineHeight ?s = sumBy (buckets ?s) bucketHeight"
    by (simp add: setInitialState_def Let_def)
  with h have t: "timelineHeight ?s = sum_list (map (\<lambda>tb. calc (count tb) vw) tbs)"
    by (simp add: sumBy_def)
  have r: "state_assets ?s = [] \<and> initialized ?s \<and> viewportHeight ?s = vh \<and>
      viewportWidth ?s = vw \<and> options ?s = opts \<and>
      calls (setInitialState calc vh vw tbs opts w) = calls w \<and>
      awaiting (setInitialState calc vh vw tbs opts w) = awaiting w"
    by (simp add: setInitialState_def Let_def)
  from d h a t r show ?thesis by simp
qed

text \<open>
  Claim C3, as stated: a layout with two entries of the same key makes setInitialState
  fail with InvalidLayout and establishes no state with duplicate keys. The code has no
  such check: on the layout [("2024-01", 10), ("2024-01", 5)] it returns an initialized
  state whose two buckets both have the key "2024-01".
\<close>

theorem setInitialState_duplicate_keys_counterexample:
  "initialized (assetGridState (setInitialState example_height 800 400
      [\<lparr>timeBucket = ''2024-01'', count = 10\<rparr>, \<lparr>timeBucket = ''2024-01'', count = 5\<rparr>] ()
      (initial_store ()))) \<and>
   map bucketDate (buckets (assetGridState (setInitialState example_height 800 400
      [\<lparr>timeBucket = ''2024-01'', count = 10\<rparr>, \<lparr>timeBucket = ''2024-01'', count = 5\<rparr>] ()
      (initial_store ())))) = [''2024-01'', ''2024-01''] \<and>
   \<not> distinct (map bucketDate (buckets (assetGridState (setInitialState example_height 800 400
      [\<lparr>timeBucket = ''2024-01'', count = 10\<rparr>, \<lparr>timeBucket = ''2024-01'', count = 5\<rparr>] ()
      (initial_store ())))))"
  by code_simp

text \<open>
  Claim C3, amended. setInitialState accepts every layout and never fails: the state it
  leaves is initialized and has one bucket per entry, so its bucket keys are distinct
  exactly when the keys of the layout are.
\<close>

theorem setInitialState_keeps_layout_keys:
  "initialized (assetGridState (setInitialState calc vh vw tbs opts w)) \<and>
   length (buckets (assetGridState (setInitialState calc vh vw tbs opts w))) = length tbs \<and>
   (distinct (map bucketDate (buckets (assetGridState (setInitialState calc vh vw tbs opts w))))
      \<longleftrightarrow> distinct (map timeBucket tbs))"
proof -
  let ?s = "assetGridState (setInitialState calc vh vw tbs opts w)"
  have d: "map bucketDate (buckets ?s) = map timeBucket tbs"
    by (rule setInitialState_buckets) simp
  then have "length (map bucketDate (buckets ?s)) = length (map timeBucket tbs)"
    by simp
  then have l: "length (buckets ?s) = length tbs" by simp
  have "initialized ?s" by (simp add: setInitialState_def Let_def)
  with d l show ?thesis by simp
qed


section \<open>Height accounting\<close>

text \<open>
  Claim C7. When some bucket has the key, updateBucketHeight returns the state in which the
  first bucket with the key has the measured height and the timeline height has changed by
  the measured height minus that bucket's previous height, whichever of the two is larger;
  every other bucket, the assets of every bucket, the flattened list and all other fields
  are as before.
\<close>

theorem updateBucketHeight_adjusts_timeline:
  assumes "b \<in> set (buckets state)" and "bucketDate b = bucket"
  shows "\<exists>i. findIndex (\<lambda>b. bucketDate b = bucket) (buckets state) = int i \<and>
             i < length (buckets state) \<and> bucketDate (buckets state ! i) = bucket \<and>
             updateBucketHeight bucket h state =
               Inr (state\<lparr>timelineHeight :=
                             timelineHeight state + (h - bucketHeight (buckets state ! i)),
                          buckets := (buckets state)[i :=
                             (buckets state ! i)\<lparr>bucketHeight := h\<rparr>]\<rparr>)"
proof -
  from assms obtain i where i: "findIndex (\<lambda>b. bucketDate b = bucket) (buckets state) = int i"
    "i < length (buckets state)" "bucketDate (buckets state ! i) = bucket"
    "at (buckets state) (findIndex (\<lambda>b. bucketDate b = bucket) (buckets state))
       = Some (buckets state ! i)"
    by (rule findIndex_found [where p = "\<lambda>b. bucketDate b = bucket"]) 
  have "updateBucketHeight bucket h state =
          Inr (state\<lparr>timelineHeight :=
                        timelineHeight state + (h - bucketHeight (buckets state ! i)),
                     buckets := (buckets state)[i := (buckets state ! i)\<lparr>bucketHeight := h\<rparr>]\<rparr>)"
    using i(1,4) by (simp add: updateBucketHeight_def Let_def)
  with i show ?thesis by blast
qed

theorem updateBucketHeight_adjusts_timeline_witness:
  "\<lparr>bucketDate = ''2024-02'', bucketHeight = 90, assets = [], cancelToken = 1\<rparr>
     \<in> set (buckets (assetGridState scenario_A)) \<and>
   updateBucketHeight ''2024-02'' 120 (assetGridState scenario_A) =
     Inr ((assetGridState scenario_A)\<lparr>timelineHeight := 270 + (120 - 90),
            buckets := (buckets (assetGridState scenario_A))[1 :=
              \<lparr>bucketDate = ''2024-02'', bucketHeight = 120, assets = [], cancelToken = 1\<rparr>]\<rparr>)"
proof -
  have b: "\<lparr>bucketDate = ''2024-02'', bucketHeight = 90, assets = [], cancelToken = 1\<rparr>
             \<in> set (buckets (assetGridState scenario_A))"
    by code_simp
  have k: "bucketDate \<lparr>bucketDate = ''2024-02'', bucketHeight = 90, assets = [], cancelToken = 1\<rparr>
             = ''2024-02''"
    by simp
  have f: "findIndex (\<lambda>b. bucketDate b = ''2024-02'') (buckets (assetGridState scenario_A)) = int 1"
    by code_simp
  have n: "buckets (assetGridState scenario_A) ! 1 =
             \<lparr>bucketDate = ''2024-02'', bucketHeight = 90, assets = [], cancelToken = 1\<rparr>"
    by code_simp
  have t: "timelineHeight (assetGridState scenario_A) = 270"
    by code_simp
  from updateBucketHeight_adjusts_timeline [OF b k, of 120] f n t b
  show ?thesis by auto
qed


section \<open>Removing the last item of a bucket\<close>







section \<open>Loading a bucket\<close>

lemma getAssetsByBucket_call_loaded:
  "find (\<lambda>b. bucketDate b = bucket) (buckets (assetGridState w)) = Some b \<Longrightarrow>
   assets b \<noteq> [] \<Longrightarrow> getAssetsByBucket_call bucket w = w"
  by (simp add: getAssetsByBucket_call_def)

lemma getAssetsByBucket_call_empty:
  "find (\<lambda>b. bucketDate b = bucket) (buckets (assetGridState w)) = Some b \<Longrightarrow>
   assets b = [] \<Longrightarrow>
   getAssetsByBucket_call bucket w =
     w\<lparr>calls := calls w @ [\<lparr>call_options = options (assetGridState w), call_bucket = bucket,
                              call_signal = Some (cancelToken b)\<rparr>],
       awaiting := awaiting w @ [\<lparr>call_options = options (assetGridState w), call_bucket = bucket,
                              call_signal = Some (cancelToken b)\<rparr>]\<rparr>"
  by (simp add: getAssetsByBucket_call_def Let_def)

lemma getAssetsByBucket_resume_fulfilled:
  assumes "findIndex (\<lambda>b. bucketDate b = bucket) (buckets (assetGridState w)) = int i"
  shows "getAssetsByBucket_resume bucket (Fulfilled data) w =
           (None, w\<lparr>assetGridState := (assetGridState w)
              \<lparr>buckets := (buckets (assetGridState w))[i :=
                             (buckets (assetGridState w) ! i)\<lparr>assets := data\<rparr>],
               state_assets := flatMap ((buckets (assetGridState w))[i :=
                             (buckets (assetGridState w) ! i)\<lparr>assets := data\<rparr>]) assets\<rparr>\<rparr>)"
  using assms findIndex_eq_int [OF assms]
  by (simp add: getAssetsByBucket_resume_def update_def getAssetsByBucket_update_def Let_def)

text \<open>
  Claim C6. getAssetsByBucket on a loaded bucket does nothing: when the first bucket with
  the key has assets, the call returns the store as it is, without a call of the fetch
  client. When that bucket is empty, a call whose fetch is fulfilled with a non-empty list,
  followed by a second call for the same key, makes exactly one call of the fetch client.
\<close>

theorem getAssetsByBucket_loaded_is_idempotent:
  assumes "find (\<lambda>b. bucketDate b = bucket) (buckets (assetGridState w)) = Some b"
  shows "(assets b \<noteq> [] \<longrightarrow> getAssetsByBucket_call bucket w = w) \<and>
         (assets b = [] \<and> data \<noteq> [] \<longrightarrow>
            calls (run calc d [GetAssetsByBucket bucket,
                               Settle (length (awaiting w)) (Fulfilled data),
                               GetAssetsByBucket bucket] w)
              = calls w @ [\<lparr>call_options = options (assetGridState w), call_bucket = bucket,
                             call_signal = Some (cancelToken b)\<rparr>])"
proof (intro conjI impI)
  assume "assets b \<noteq> []"
  with assms show "getAssetsByBucket_call bucket w = w"
    by (rule getAssetsByBucket_call_loaded)
next
  assume e: "assets b = [] \<and> data \<noteq> []"
  let ?c = "\<lparr>call_options = options (assetGridState w), call_bucket = bucket,
             call_signal = Some (cancelToken b)\<rparr>"
  let ?w1 = "w\<lparr>calls := calls w @ [?c], awaiting := awaiting w @ [?c]\<rparr>"
  let ?w1' = "w\<lparr>calls := calls w @ [?c]\<rparr>"
  from assms obtain i where i: "findIndex (\<lambda>b. bucketDate b = bucket) (buckets (assetGridState w)) = int i"
    "i < length (buckets (assetGridState w))" "buckets (assetGridState w) ! i = b" "bucketDate b = bucket"
    by (rule find_findIndex)
  let ?bs = "(buckets (assetGridState w))[i := b\<lparr>assets := data\<rparr>]"
  let ?w2 = "?w1'\<lparr>assetGridState := (assetGridState w)\<lparr>buckets := ?bs,
               state_assets := flatMap ?bs assets\<rparr>\<rparr>"
  have s1: "step calc d (GetAssetsByBucket bucket) w = ?w1"
    using assms e by (simp add: getAssetsByBucket_call_empty)
  have "getAssetsByBucket_resume bucket (Fulfilled data) ?w1' = (None, ?w2)"
    using getAssetsByBucket_resume_fulfilled [of bucket ?w1' i data] i by simp
  then have s2: "step calc d (Settle (length (awaiting w)) (Fulfilled data)) ?w1 = ?w2"
    by simp
  have "find (\<lambda>b. bucketDate b = bucket) ?bs = Some (b\<lparr>assets := data\<rparr>)"
    using i(1) by (rule find_update_first) (simp add: i)
  then have s3: "step calc d (GetAssetsByBucket bucket) ?w2 = ?w2"
    using e by (simp add: getAssetsByBucket_call_loaded)
  from s1 s2 s3 show "calls (run calc d [GetAssetsByBucket bucket,
                               Settle (length (awaiting w)) (Fulfilled data),
                               GetAssetsByBucket bucket] w) = calls w @ [?c]"
    by (simp add: run_def)
qed

theorem getAssetsByBucket_loaded_is_idempotent_witness:
  "find (\<lambda>b. bucketDate b = ''2024-01'') (buckets (assetGridState scenario_B))
     = Some \<lparr>bucketDate = ''2024-01'', bucketHeight = 180, assets = [asset_a1], cancelToken = 0\<rparr> \<and>
   getAssetsByBucket_call ''2024-01'' scenario_B = scenario_B \<and>
   find (\<lambda>b. bucketDate b = ''2024-01'') (buckets (assetGridState scenario_A))
     = Some \<lparr>bucketDate = ''2024-01'', bucketHeight = 180, assets = [], cancelToken = 0\<rparr> \<and>
   calls (run example_height () [GetAssetsByBucket ''2024-01'',
            Settle (length (awaiting scenario_A)) (Fulfilled [asset_a1]),
            GetAssetsByBucket ''2024-01''] scenario_A)
     = calls scenario_A @ [\<lparr>call_options = options (assetGridState scenario_A),
                            call_bucket = ''2024-01'', call_signal = Some 0\<rparr>]"
proof -
  have fB: "find (\<lambda>b. bucketDate b = ''2024-01'') (buckets (assetGridState scenario_B))
     = Some \<lparr>bucketDate = ''2024-01'', bucketHeight = 180, assets = [asset_a1], cancelToken = 0\<rparr>"
    by code_simp
  have fA: "find (\<lambda>b. bucketDate b = ''2024-01'') (buckets (assetGridState scenario_A))
     = Some \<lparr>bucketDate = ''2024-01'', bucketHeight = 180, assets = [], cancelToken = 0\<rparr>"
    by code_simp
  from getAssetsByBucket_loaded_is_idempotent [OF fB, of "[]" example_height "()"]
       getAssetsByBucket_loaded_is_idempotent [OF fA, of "[asset_a1]" example_height "()"]
       fA fB
  show ?thesis by simp
qed

text \<open>
  Claim C8. When the fetch is rejected with an exception that is not named CanceledError,
  getAssetsByBucket returns normally: nothing is thrown to the caller, two lines are
  written to the console, and the grid state (every bucket, the flattened list, the
  timeline height) is the one before; a later call for the bucket calls the fetch client
  exactly as it would have before the failure.
\<close>

theorem getAssetsByBucket_failure_is_local:
  assumes "name e \<noteq> ''CanceledError''"
  shows "getAssetsByBucket_resume bucket (Rejected e) w =
           (None, w\<lparr>console := console w @
                       [''Failed to get asset for bucket '' @ bucket, name e]\<rparr>) \<and>
         assetGridState (snd (getAssetsByBucket_resume bucket (Rejected e) w)) = assetGridState w \<and>
         calls (getAssetsByBucket_call bucket (snd (getAssetsByBucket_resume bucket (Rejected e) w)))
           = calls (getAssetsByBucket_call bucket w)"
  using assms by (simp add: getAssetsByBucket_resume_def getAssetsByBucket_call_def Let_def)

theorem getAssetsByBucket_failure_is_local_witness:
  "name (JsError ''AxiosError'') \<noteq> ''CanceledError'' \<and>
   getAssetsByBucket_resume ''2024-01'' (Rejected (JsError ''AxiosError'')) scenario_A =
     (None, scenario_A\<lparr>console := [''Failed to get asset for bucket 2024-01'', ''AxiosError'']\<rparr>) \<and>
   calls (getAssetsByBucket_call ''2024-01''
           (snd (getAssetsByBucket_resume ''2024-01'' (Rejected (JsError ''AxiosError'')) scenario_A)))
     = [\<lparr>call_options = (), call_bucket = ''2024-01'', call_signal = Some 0\<rparr>]"
proof -
  have n: "name (JsError ''AxiosError'') \<noteq> ''CanceledError''" by simp
  have c: "console scenario_A = []" by code_simp
  have k: "calls (getAssetsByBucket_call ''2024-01'' scenario_A)
             = [\<lparr>call_options = (), call_bucket = ''2024-01'', call_signal = Some 0\<rparr>]"
    by code_simp
  note t = getAssetsByBucket_failure_is_local [OF n, of "''2024-01''" scenario_A]
  from t have "getAssetsByBucket_resume ''2024-01'' (Rejected (JsError ''AxiosError'')) scenario_A =
      (None, scenario_A\<lparr>console := console scenario_A @
         [''Failed to get asset for bucket '' @ ''2024-01'', name (JsError ''AxiosError'')]\<rparr>)"
    by (rule conjunct1)
  with c have r: "getAssetsByBucket_resume ''2024-01'' (Rejected (JsError ''AxiosError'')) scenario_A =
      (None, scenario_A\<lparr>console := [''Failed to get asset for bucket 2024-01'', ''AxiosError'']\<rparr>)"
    by simp
  from t have "calls (getAssetsByBucket_call ''2024-01''
           (snd (getAssetsByBucket_resume ''2024-01'' (Rejected (JsError ''AxiosError'')) scenario_A)))
     = calls (getAssetsByBucket_call ''2024-01'' scenario_A)"
    by blast
  with k have "calls (getAssetsByBucket_call ''2024-01''
           (snd (getAssetsByBucket_resume ''2024-01'' (Rejected (JsError ''AxiosError'')) scenario_A)))
     = [\<lparr>call_options = (), call_bucket = ''2024-01'', call_signal = Some 0\<rparr>]"
    by (simp only:)
  with n r show ?thesis by blast
qed

text \<open>
  Claim C2, as stated: a fetch whose cancel token was aborted (by cancelBucketRequest or by
  reset) before its result is applied never overwrites the bucket, since the cancellation
  is checked when the result is applied. The continuation of getAssetsByBucket makes no
  such check. In scenario E the fetch of bucket "2024-01" was issued with token 0 and
  token 0 has been aborted by cancelBucketRequest; in scenario R token 0 has been aborted
  by reset and the grid initialized again. In both, when the client fulfils the fetch with
  one asset, the empty bucket "2024-01" receives it.
\<close>

theorem superseded_fetch_overwrites_counterexample:
  "call_signal (awaiting scenario_E ! 0) = Some 0 \<and>
   0 \<in> aborted scenario_E \<and>
   map assets (buckets (assetGridState scenario_E)) = [[], []] \<and>
   map assets (buckets (assetGridState
      (step example_height () (Settle 0 (Fulfilled [asset_a1])) scenario_E)))
     = [[asset_a1], []] \<and>
   call_signal (awaiting scenario_R ! 0) = Some 0 \<and>
   0 \<in> aborted scenario_R \<and>
   map assets (buckets (assetGridState scenario_R)) = [[], []] \<and>
   map assets (buckets (assetGridState
      (step example_height () (Settle 0 (Fulfilled [asset_a1])) scenario_R)))
     = [[asset_a1], []]"
  by code_simp

text \<open>
  Claim C2, amended. A superseded fetch leaves the store as it is when the fetch client
  rejects it with an exception named CanceledError: the exception is swallowed and nothing
  is logged. The store makes no cancellation check of its own: whenever the client
  fulfils the fetch, in any store (whatever tokens are aborted in it), the data replaces
  the assets of the first bucket that has the key at that moment and the flattened list is
  recomputed.
\<close>

theorem settled_fetch_applied_as_reported:
  "getAssetsByBucket_resume bucket (Rejected CanceledError) w = (None, w) \<and>
   (findIndex (\<lambda>b. bucketDate b = bucket) (buckets (assetGridState w)) = int i \<longrightarrow>
      getAssetsByBucket_resume bucket (Fulfilled data) w =
        (None, w\<lparr>assetGridState := (assetGridState w)
           \<lparr>buckets := (buckets (assetGridState w))[i :=
                          (buckets (assetGridState w) ! i)\<lparr>assets := data\<rparr>],
            state_assets := flatMap ((buckets (assetGridState w))[i :=
                          (buckets (assetGridState w) ! i)\<lparr>assets := data\<rparr>]) assets\<rparr>\<rparr>))"
  by (simp add: getAssetsByBucket_resume_fulfilled) (simp add: getAssetsByBucket_resume_def)

theorem settled_fetch_applied_as_reported_witness:
  "0 \<in> aborted scenario_E \<and>
   findIndex (\<lambda>b. bucketDate b = ''2024-01'') (buckets (assetGridState scenario_E)) = int 0 \<and>
   getAssetsByBucket_resume ''2024-01'' (Rejected CanceledError) scenario_E = (None, scenario_E) \<and>
   getAssetsByBucket_resume ''2024-01'' (Fulfilled [asset_a1]) scenario_E =
     (None, scenario_E\<lparr>assetGridState := (assetGridState scenario_E)
        \<lparr>buckets := (buckets (assetGridState scenario_E))[0 :=
                       (buckets (assetGridState scenario_E) ! 0)\<lparr>assets := [asset_a1]\<rparr>],
         state_assets := flatMap ((buckets (assetGridState scenario_E))[0 :=
                       (buckets (assetGridState scenario_E) ! 0)\<lparr>assets := [asset_a1]\<rparr>]) assets\<rparr>\<rparr>)"
proof -
  have a: "0 \<in> aborted scenario_E" by code_simp
  have f: "findIndex (\<lambda>b. bucketDate b = ''2024-01'') (buckets (assetGridState scenario_E)) = int 0"
    by code_simp
  from a f settled_fetch_applied_as_reported [of "''2024-01''" scenario_E 0 "[asset_a1]"]
  show ?thesis by blast
qed


section \<open>Jobs queued by the upload pipeline\<close>

text \<open>
  Claim C9. On the upload of an asset the jobs are queued in this order: thumbnail
  generation first; then, for a video, video conversion and video metadata extraction
  (three jobs), and for an image, EXIF extraction (two jobs). On save, one search-index
  job carrying the identifier of the asset is queued.
\<close>

theorem upload_job_dispatch:
  "(asset_type asset = VIDEO \<longrightarrow>
      handleAssetUpload asset jobs = jobs @
        [\<lparr>job_name = GENERATE_JPEG_THUMBNAIL, job_data = Asset asset\<rparr>,
         \<lparr>job_name = VIDEO_CONVERSION, job_data = Asset asset\<rparr>,
         \<lparr>job_name = EXTRACT_VIDEO_METADATA, job_data = Asset asset\<rparr>]) \<and>
   (asset_type asset = IMAGE \<longrightarrow>
      handleAssetUpload asset jobs = jobs @
        [\<lparr>job_name = GENERATE_JPEG_THUMBNAIL, job_data = Asset asset\<rparr>,
         \<lparr>job_name = EXIF_EXTRACTION, job_data = Asset asset\<rparr>]) \<and>
   save asset jobs = jobs @ [\<lparr>job_name = SEARCH_INDEX_ASSET, job_data = Ids [asset_id asset]\<rparr>]"
  by (simp add: handleAssetUpload_def save_def queue_def Let_def)

theorem upload_job_dispatch_witness:
  "map job_name (handleAssetUpload \<lparr>asset_id = ''v1'', asset_type = VIDEO\<rparr> [])
     = [GENERATE_JPEG_THUMBNAIL, VIDEO_CONVERSION, EXTRACT_VIDEO_METADATA] \<and>
   map job_name (handleAssetUpload \<lparr>asset_id = ''i1'', asset_type = IMAGE\<rparr> [])
     = [GENERATE_JPEG_THUMBNAIL, EXIF_EXTRACTION] \<and>
   save \<lparr>asset_id = ''i1'', asset_type = IMAGE\<rparr> []
     = [\<lparr>job_name = SEARCH_INDEX_ASSET, job_data = Ids [''i1'']\<rparr>]"
  using upload_job_dispatch [of "\<lparr>asset_id = ''v1'', asset_type = VIDEO\<rparr>" "[]"]
        upload_job_dispatch [of "\<lparr>asset_id = ''i1'', asset_type = IMAGE\<rparr>" "[]"]
  by simp

end
